theory Spec2Isabelle
  imports Complex_Main "HOL-Library.AList"
begin

section \<open>The mock server of the stock broker dashboard\<close>

text \<open>
  The development follows \<^verbatim>\<open>src/mockServer.js\<close>: the in-memory store, the seeding of the
  quotes (\<^verbatim>\<open>randomPrice\<close>, \<^verbatim>\<open>initAccountData\<close>), the timer callback that perturbs every
  quote, and the path router \<^verbatim>\<open>apiFetch\<close>.

  Conventions of the embedding.
  \<^item> JavaScript numbers are modelled as real numbers: the arithmetic of the model is exact,
    and neither the rounding error of IEEE doubles nor overflow to \<^verbatim>\<open>Infinity\<close> is part of it.
  \<^item> \<^verbatim>\<open>Math.random()\<close> and \<^verbatim>\<open>Date.now()\<close> are the environment's: the model takes the
    sequence of their results as a parameter. Seeding and ticking call each of them once per
    quote, so one counter of the calls made so far indexes both sequences.
  \<^item> A plain object used as a dictionary is an association list in insertion order, which
    is the order of \<^verbatim>\<open>Object.keys\<close> and \<^verbatim>\<open>Object.values\<close> for keys that are not array
    indices.
\<close>

subsection \<open>Data\<close>

record company =
  company_id :: string
  company_name :: string

record account =
  account_id :: string
  account_name :: string
  account_stocks :: "string list"

record stock_quote =
  ticker :: string
  price :: real
  change :: real
  updatedAt :: int

text \<open>The object \<^verbatim>\<open>{ stocks: data }\<close> stored per account.\<close>

record account_data =
  stocks :: "stock_quote list"

record store =
  companies :: "company list"
  accounts :: "(string \<times> account list) list"
  accountData :: "(string \<times> account_data) list"

text \<open>The store literal of \<^verbatim>\<open>createMockServer\<close>.\<close>

definition initial_store :: store where
  "initial_store =
     \<lparr>companies =
        [\<lparr>company_id = ''c1'', company_name = ''Sumaiya Tech''\<rparr>,
         \<lparr>company_id = ''c2'', company_name = ''Fathima Holdings''\<rparr>],
      accounts =
        [(''c1'',
          [\<lparr>account_id = ''a1'', account_name = ''Sumaiya - Account 1'',
            account_stocks = [''GOOG'', ''TSLA'', ''AMZN'']\<rparr>,
           \<lparr>account_id = ''a2'', account_name = ''Sumaiya - Account 2'',
            account_stocks = [''META'', ''NVDA'']\<rparr>]),
         (''c2'',
          [\<lparr>account_id = ''b1'', account_name = ''Fathima - Account 1'',
            account_stocks = [''TSLA'', ''NVDA'']\<rparr>,
           \<lparr>account_id = ''b2'', account_name = ''Fathima - Account 2'',
            account_stocks = [''GOOG'', ''AMZN'', ''META'']\<rparr>])],
      accountData = []\<rparr>"

subsection \<open>The environment and the state of a run\<close>

record env =
  random :: "nat \<Rightarrow> real"
  now :: "nat \<Rightarrow> int"

text \<open>
  The state of a server: the store, and how many quotes have been seeded or perturbed so
  far (the index of the next result of \<^verbatim>\<open>Math.random()\<close> and of \<^verbatim>\<open>Date.now()\<close>).
\<close>

record sim =
  store :: store
  calls :: nat

subsection \<open>Numbers\<close>

text \<open>
  \<^verbatim>\<open>+x.toFixed(2)\<close>. \<^verbatim>\<open>Number.prototype.toFixed\<close> works on the magnitude of \<^verbatim>\<open>x\<close>: from
  \<open>10\<^sup>2\<^sup>1\<close> on it prints the number itself, below it prints the integer \<open>n\<close> for which
  \<open>n / 100\<close> is nearest to the magnitude, the larger one of two; the unary plus reads the
  digits back.
\<close>

definition toFixed2 :: "real \<Rightarrow> real" where
  "toFixed2 x =
     (if 10 ^ 21 \<le> \<bar>x\<bar> then x
      else sgn x * (real_of_int \<lfloor>\<bar>x\<bar> * 100 + 1 / 2\<rfloor> / 100))"

text \<open>\<^verbatim>\<open>randomPrice(base)\<close>, where \<open>r\<close> is the result of its call of \<^verbatim>\<open>Math.random()\<close>.\<close>

definition randomPrice :: "real \<Rightarrow> real \<Rightarrow> real" where
  "randomPrice r base = toFixed2 (base + r * base)"

subsection \<open>Seeding: \<^verbatim>\<open>initAccountData\<close>\<close>

text \<open>
  \<^verbatim>\<open>acc.stocks.map((ticker) => ({ ticker, price: randomPrice(100), change: 0,
  updatedAt: Date.now() }))\<close>, the first quote taking call \<open>k\<close>.
\<close>

fun seed_stocks :: "env \<Rightarrow> nat \<Rightarrow> string list \<Rightarrow> stock_quote list" where
  "seed_stocks e k [] = []"
| "seed_stocks e k (t # ts) =
     \<lparr>ticker = t, price = randomPrice (random e k) 100, change = 0, updatedAt = now e k\<rparr>
       # seed_stocks e (Suc k) ts"

text \<open>
  The body of the \<^verbatim>\<open>forEach\<close>: \<^verbatim>\<open>store.accountData[acc.id] = { stocks: data }\<close>. An
  assignment to a key the object has keeps the key's place, a new key goes to the end.
\<close>

definition init_account :: "env \<Rightarrow> account \<Rightarrow> sim \<Rightarrow> sim" where
  "init_account e acc s =
     \<lparr>store = (store s)\<lparr>accountData :=
          AList.update (account_id acc)
            \<lparr>stocks = seed_stocks e (calls s) (account_stocks acc)\<rparr>
            (accountData (store s))\<rparr>,
      calls = calls s + length (account_stocks acc)\<rparr>"

fun init_accounts :: "env \<Rightarrow> account list \<Rightarrow> sim \<Rightarrow> sim" where
  "init_accounts e [] s = s"
| "init_accounts e (acc # accs) s = init_accounts e accs (init_account e acc s)"

text \<open>\<^verbatim>\<open>Object.values(store.accounts).flat().forEach(...)\<close>.\<close>

definition initAccountData :: "env \<Rightarrow> sim \<Rightarrow> sim" where
  "initAccountData e s = init_accounts e (concat (map snd (accounts (store s)))) s"

definition createMockServer :: "env \<Rightarrow> sim" where
  "createMockServer e = initAccountData e \<lparr>store = initial_store, calls = 0\<rparr>"

subsection \<open>The timer callback\<close>

text \<open>\<^verbatim>\<open>(Math.random() - 0.5) * (s.price * 0.02)\<close>.\<close>

definition delta :: "real \<Rightarrow> real \<Rightarrow> real" where
  "delta r p = (r - 0.5) * (p * 0.02)"

text \<open>
  The body of the inner \<^verbatim>\<open>forEach\<close>. \<^verbatim>\<open>s.change\<close> is assigned before \<^verbatim>\<open>s.price\<close>, so it
  is computed from the price the quote had when the callback reached it.
\<close>

definition tick_quote :: "real \<Rightarrow> int \<Rightarrow> stock_quote \<Rightarrow> stock_quote" where
  "tick_quote r t s =
     (let newPrice = max 0.01 (toFixed2 (price s + delta r (price s)))
      in s\<lparr>change := toFixed2 (newPrice - price s), price := newPrice, updatedAt := t\<rparr>)"

fun tick_stocks :: "env \<Rightarrow> nat \<Rightarrow> stock_quote list \<Rightarrow> stock_quote list" where
  "tick_stocks e k [] = []"
| "tick_stocks e k (s # ss) =
     tick_quote (random e k) (now e k) s # tick_stocks e (Suc k) ss"

text \<open>
  \<^verbatim>\<open>Object.keys(store.accountData).forEach(...)\<close>: every entry of the object is visited
  once, in insertion order, and its quotes are updated in place.
\<close>

fun tick_accounts ::
  "env \<Rightarrow> nat \<Rightarrow> (string \<times> account_data) list \<Rightarrow> (string \<times> account_data) list" where
  "tick_accounts e k [] = []"
| "tick_accounts e k ((accId, acc) # rest) =
     (accId, acc\<lparr>stocks := tick_stocks e k (stocks acc)\<rparr>)
       # tick_accounts e (k + length (stocks acc)) rest"

fun count_quotes :: "(string \<times> account_data) list \<Rightarrow> nat" where
  "count_quotes [] = 0"
| "count_quotes ((accId, acc) # rest) = length (stocks acc) + count_quotes rest"

definition tick :: "env \<Rightarrow> sim \<Rightarrow> sim" where
  "tick e s =
     \<lparr>store = (store s)\<lparr>accountData := tick_accounts e (calls s) (accountData (store s))\<rparr>,
      calls = calls s + count_quotes (accountData (store s))\<rparr>"

text \<open>The server after the timer has fired \<open>n\<close> times.\<close>

fun ticks :: "env \<Rightarrow> nat \<Rightarrow> sim" where
  "ticks e 0 = createMockServer e"
| "ticks e (Suc n) = tick e (ticks e n)"

text \<open>All quotes of a server, account after account.\<close>

definition quotes :: "sim \<Rightarrow> stock_quote list" where
  "quotes s = concat (map (\<lambda>(accId, acc). stocks acc) (accountData (store s)))"

text \<open>A quote as \<^verbatim>\<open>initAccountData\<close> makes it, from some call \<open>k\<close> of the environment.\<close>

definition seeded :: "env \<Rightarrow> stock_quote \<Rightarrow> bool" where
  "seeded e q \<longleftrightarrow>
     (\<exists>k. price q = randomPrice (random e k) 100 \<and> change q = 0 \<and> updatedAt q = now e k)"


text \<open>
  Two servers whose quotes correspond one to one: the same account ids in the same order,
  each with as many quotes, and every pair of an old and a new quote related by \<open>R\<close>.
\<close>

definition quotes_related :: "(stock_quote \<Rightarrow> stock_quote \<Rightarrow> bool) \<Rightarrow> sim \<Rightarrow> sim \<Rightarrow> bool" where
  "quotes_related R s s' =
     list_all2 (\<lambda>x y. fst y = fst x \<and> list_all2 R (stocks (snd x)) (stocks (snd y)))
       (accountData (store s)) (accountData (store s'))"

subsection \<open>Property lookup\<close>

text \<open>
  \<^verbatim>\<open>store.accounts\<close> and \<^verbatim>\<open>store.accountData\<close> are plain objects, so \<^verbatim>\<open>obj[key]\<close> finds the
  object's own properties first and then those it inherits from \<^verbatim>\<open>Object.prototype\<close>; only
  a key found in neither gives \<^verbatim>\<open>undefined\<close>. The inherited members are functions, and
  \<^verbatim>\<open>__proto__\<close> is the prototype object itself: all of them are truthy.
\<close>

definition object_prototype_keys :: "string list" where
  "object_prototype_keys =
     [''constructor'', ''hasOwnProperty'', ''isPrototypeOf'', ''propertyIsEnumerable'',
      ''toLocaleString'', ''toString'', ''valueOf'', ''__proto__'',
      ''__defineGetter__'', ''__defineSetter__'', ''__lookupGetter__'', ''__lookupSetter__'']"

datatype 'a property = Own 'a | Inherited string | Undefined

definition get_property :: "(string \<times> 'a) list \<Rightarrow> string \<Rightarrow> 'a property" where
  "get_property obj key =
     (case map_of obj key of
        Some v \<Rightarrow> Own v
      | None \<Rightarrow> if key \<in> set object_prototype_keys then Inherited key else Undefined)"

subsection \<open>Responses\<close>

text \<open>
  A response carries its status and the arrow function \<^verbatim>\<open>json\<close>. The function is kept
  as the source writes it, unevaluated, with the id it has captured: it reads the store
  when it is called, not when the response is made.
\<close>

datatype json_fn =
    Companies_fn
  | Accounts_fn string
  | AccountData_fn string
  | NotFound_fn

record response =
  status :: nat
  json :: json_fn

text \<open>What a call of \<^verbatim>\<open>json()\<close> can return.\<close>

datatype js_value =
    JCompanies "company list"
  | JAccounts "account list"
  | JAccountData account_data
  | JInherited string
  | JError string

text \<open>
  The four function bodies: \<^verbatim>\<open>store.companies\<close>, \<^verbatim>\<open>store.accounts[companyId] || []\<close>,
  \<^verbatim>\<open>store.accountData[accountId] || { stocks: [] }\<close> and \<^verbatim>\<open>({ error: "not found" })\<close>.
  \<^verbatim>\<open>||\<close> takes its right operand only for a falsy left one, here \<^verbatim>\<open>undefined\<close>.
\<close>

fun call_json :: "store \<Rightarrow> json_fn \<Rightarrow> js_value" where
  "call_json st Companies_fn = JCompanies (companies st)"
| "call_json st (Accounts_fn companyId) =
     (case get_property (accounts st) companyId of
        Own v \<Rightarrow> JAccounts v
      | Inherited k \<Rightarrow> JInherited k
      | Undefined \<Rightarrow> JAccounts [])"
| "call_json st (AccountData_fn accountId) =
     (case get_property (accountData st) accountId of
        Own v \<Rightarrow> JAccountData v
      | Inherited k \<Rightarrow> JInherited k
      | Undefined \<Rightarrow> JAccountData \<lparr>stocks = []\<rparr>)"
| "call_json st NotFound_fn = JError ''not found''"

subsection \<open>The URL constructor\<close>

text \<open>
  \<^verbatim>\<open>new URL(path, "http://localhost").pathname\<close> is computed by the browser, following the
  URL Standard, and not by this repository. The router is therefore modelled over any
  function of that type: it gives the pathname of the parsed URL, or \<open>None\<close> where the
  constructor throws its \<^verbatim>\<open>TypeError\<close>.
\<close>

type_synonym url_parser = "string \<Rightarrow> string option"

datatype js_error = TypeError

text \<open>
  The examples of this theory need to know the parser on two kinds of input.
  \<^item> A path that starts with exactly one slash and goes on with letters, digits, \<^verbatim>\<open>-\<close>,
    \<^verbatim>\<open>_\<close> and slashes has neither scheme, authority, query, fragment, dot segment nor a
    character to escape: it is its own pathname.
  \<^item> Two or more slashes and nothing else are a scheme-relative reference with an empty
    host, which the parser rejects for \<^verbatim>\<open>http\<close>.
  On every other input \<open>pathname_of\<close> defers to \<open>other\<close>, about which nothing is said.
\<close>

definition path_char :: "char \<Rightarrow> bool" where
  "path_char c \<longleftrightarrow>
     c \<in> set ''abcdefghijklmnopqrstuvwxyzABCDEFGHIJKLMNOPQRSTUVWXYZ0123456789-_/''"

fun plain_path :: "string \<Rightarrow> bool" where
  "plain_path [] = False"
| "plain_path [c] = (c = CHR ''/'')"
| "plain_path (c # d # cs) = (c = CHR ''/'' \<and> d \<noteq> CHR ''/'' \<and> list_all path_char (d # cs))"

definition empty_authority :: "string \<Rightarrow> bool" where
  "empty_authority path \<longleftrightarrow> 2 \<le> length path \<and> list_all (\<lambda>c. c = CHR ''/'') path"

definition pathname_of :: "url_parser \<Rightarrow> url_parser" where
  "pathname_of other path =
     (if plain_path path then Some path
      else if empty_authority path then None
      else other path)"

subsection \<open>The router: \<^verbatim>\<open>apiFetch\<close>\<close>

text \<open>\<^verbatim>\<open>pathname.split("/")\<close>: the pieces between the slashes, empty ones included.\<close>

fun split_slash :: "string \<Rightarrow> string list" where
  "split_slash [] = [[]]"
| "split_slash (c # cs) =
     (if c = CHR ''/'' then [] # split_slash cs
      else (case split_slash cs of
              [] \<Rightarrow> [[c]]
            | piece # pieces \<Rightarrow> (c # piece) # pieces))"

text \<open>\<^verbatim>\<open>.filter(Boolean)\<close> drops the empty pieces, the only falsy strings.\<close>

definition path_parts :: "string \<Rightarrow> string list" where
  "path_parts pathname = filter (\<lambda>piece. piece \<noteq> []) (split_slash pathname)"

text \<open>\<^verbatim>\<open>parts[i]\<close>, which is \<^verbatim>\<open>undefined\<close> from the length of the array on.\<close>

definition index :: "'a list \<Rightarrow> nat \<Rightarrow> 'a option" where
  "index xs i = (if i < length xs then Some (xs ! i) else None)"

text \<open>
  The two \<^verbatim>\<open>if\<close> blocks, each giving the response it returns, or \<open>None\<close> when control
  leaves the block without a \<^verbatim>\<open>return\<close>. The id is read as \<^verbatim>\<open>parts[1]\<close> only where
  \<^verbatim>\<open>parts[2]\<close> exists.
\<close>

definition companies_block :: "string list \<Rightarrow> response option" where
  "companies_block parts =
     (if index parts 0 = Some ''companies'' then
        (if length parts = 1 then Some \<lparr>status = 200, json = Companies_fn\<rparr>
         else if index parts 2 = Some ''accounts''
           then Some \<lparr>status = 200, json = Accounts_fn (parts ! 1)\<rparr>
         else None)
      else None)"

definition accounts_block :: "string list \<Rightarrow> response option" where
  "accounts_block parts =
     (if index parts 0 = Some ''accounts'' then
        (if index parts 2 = Some ''data''
           then Some \<lparr>status = 200, json = AccountData_fn (parts ! 1)\<rparr>
         else None)
      else None)"

definition route :: "string list \<Rightarrow> response" where
  "route parts =
     (case companies_block parts of
        Some res \<Rightarrow> res
      | None \<Rightarrow>
          (case accounts_block parts of
             Some res \<Rightarrow> res
           | None \<Rightarrow> \<lparr>status = 404, json = NotFound_fn\<rparr>))"

text \<open>
  \<^verbatim>\<open>apiFetch(path)\<close>. The wait of 120 ms before the path is parsed has no part in the
  result and is left out; an exception thrown inside the \<^verbatim>\<open>async\<close> function, which rejects
  the promise it returns, is the \<open>Inl\<close> result.
\<close>

definition apiFetch :: "url_parser \<Rightarrow> string \<Rightarrow> js_error + response" where
  "apiFetch url path =
     (case url path of
        None \<Rightarrow> Inl TypeError
      | Some pathname \<Rightarrow> Inr (route (path_parts pathname)))"

text \<open>
  A request followed by the call of \<^verbatim>\<open>json()\<close> on its response, as a step of the server:
  what the caller gets, and the server afterwards.
\<close>

definition fetch_json :: "url_parser \<Rightarrow> string \<Rightarrow> sim \<Rightarrow> (js_error + nat \<times> js_value) \<times> sim" where
  "fetch_json url path s =
     (case apiFetch url path of
        Inl err \<Rightarrow> (Inl err, s)
      | Inr res \<Rightarrow> (Inr (status res, call_json (store s) (json res)), s))"

text \<open>
  The shapes of segment lists that the router serves: \<^verbatim>\<open>companies\<close> alone, and any list
  whose first and third segments are \<^verbatim>\<open>companies\<close> and \<^verbatim>\<open>accounts\<close>, or \<^verbatim>\<open>accounts\<close> and
  \<^verbatim>\<open>data\<close>.
\<close>

fun served :: "string list \<Rightarrow> bool" where
  "served [a] = (a = ''companies'')"
| "served (a # b # c # rest) =
     (a = ''companies'' \<and> c = ''accounts'' \<or> a = ''accounts'' \<and> c = ''data'')"
| "served _ = False"

text \<open>
  The three path patterns of the specification's interface table, \<^verbatim>\<open>/companies\<close>,
  \<^verbatim>\<open>/companies/{companyId}/accounts\<close> and \<^verbatim>\<open>/accounts/{accountId}/data\<close>, read on the
  segments of a pathname.
\<close>

fun spec_pattern :: "string list \<Rightarrow> bool" where
  "spec_pattern [a] = (a = ''companies'')"
| "spec_pattern [a, b, c] =
     (a = ''companies'' \<and> c = ''accounts'' \<or> a = ''accounts'' \<and> c = ''data'')"
| "spec_pattern _ = False"

text \<open>
  The tickers of the quotes held for each account id, and the tickers each account of the
  store subscribes to.
\<close>

definition ticker_lists :: "(string \<times> account_data) list \<Rightarrow> (string \<times> string list) list" where
  "ticker_lists al = map (\<lambda>x. (fst x, map ticker (stocks (snd x)))) al"

definition subscriptions :: "store \<Rightarrow> (string \<times> string list) list" where
  "subscriptions st =
     map (\<lambda>acc. (account_id acc, account_stocks acc)) (concat (map snd (accounts st)))"

subsection \<open>Example environments\<close>

text \<open>The parser of the examples: the two kinds of input above, and no other.\<close>

definition example_url :: url_parser where
  "example_url = pathname_of (\<lambda>path. None)"


text \<open>Draws that cycle through 0, 1/4, 1/2 and 3/4, and a clock that advances by a second.\<close>

definition sample_env :: env where
  "sample_env =
     \<lparr>random = (\<lambda>k. real (k mod 4) / 4), now = (\<lambda>k. 1700000000000 + 1000 * int k)\<rparr>"

text \<open>Draws close to the upper end of the range of \<^verbatim>\<open>Math.random()\<close>.\<close>

definition high_env :: env where
  "high_env = \<lparr>random = (\<lambda>k. 99999 / 100000), now = (\<lambda>k. 1700000000000)\<rparr>"

section \<open>Properties\<close>

subsection \<open>Rounding to hundredths\<close>

lemma toFixed2_hundredths:
  assumes "\<bar>x\<bar> < 10 ^ 21"
  shows "\<exists>j::int. toFixed2 x = real_of_int j / 100"
proof -
  let ?n = "\<lfloor>\<bar>x\<bar> * 100 + 1 / 2\<rfloor>"
  have "toFixed2 x = sgn x * (real_of_int ?n / 100)"
    using assms by (simp add: toFixed2_def)
  moreover have "sgn x = real_of_int (sgn \<lfloor>sgn x\<rfloor>)"
    by (cases "x < 0"; cases "x = 0") (simp_all add: sgn_real_def)
  ultimately have "toFixed2 x = real_of_int (sgn \<lfloor>sgn x\<rfloor> * ?n) / 100"
    by simp
  then show ?thesis by blast
qed

lemma toFixed2_near:
  assumes "0 \<le> x"
  shows "\<bar>toFixed2 x - x\<bar> \<le> 1 / 200"
proof (cases "10 ^ 21 \<le> \<bar>x\<bar>")
  case True
  then show ?thesis by (simp add: toFixed2_def)
next
  case False
  let ?n = "\<lfloor>x * 100 + 1 / 2\<rfloor>"
  have lo: "real_of_int ?n \<le> x * 100 + 1 / 2" by (rule of_int_floor_le)
  have hi: "x * 100 + 1 / 2 < real_of_int ?n + 1" by linarith
  show ?thesis
  proof (cases "x = 0")
    case True
    then show ?thesis by (simp add: toFixed2_def)
  next
    case nz: False
    with assms have "0 < x" by simp
    then have "toFixed2 x = real_of_int ?n / 100"
      using False by (simp add: toFixed2_def)
    then show ?thesis using lo hi by linarith
  qed
qed

lemma randomPrice_100_range:
  assumes "0 \<le> r" "r < 1"
  shows "100 \<le> randomPrice r 100 \<and> randomPrice r 100 \<le> 200"
proof -
  let ?x = "100 + r * 100"
  have x: "100 \<le> ?x" "?x < 200" using assms by simp_all
  then have "0 \<le> ?x" by simp
  from toFixed2_near [OF this] have "\<bar>randomPrice r 100 - ?x\<bar> \<le> 1 / 200"
    by (simp add: randomPrice_def)
  with x have near: "100 - 1 / 200 \<le> randomPrice r 100" "randomPrice r 100 < 200 + 1 / 200"
    by linarith+
  have "\<bar>?x\<bar> < 10 ^ 21" using x by simp
  from toFixed2_hundredths [OF this] obtain j :: int
    where j: "randomPrice r 100 = real_of_int j / 100"
    by (auto simp: randomPrice_def)
  from near have "real_of_int 9999 < real_of_int j" "real_of_int j < real_of_int 20001"
    unfolding j by simp_all
  then have "10000 \<le> j" "j \<le> 20000"
    unfolding of_int_less_iff by simp_all
  then have "real_of_int 10000 \<le> real_of_int j" "real_of_int j \<le> real_of_int 20000"
    unfolding of_int_le_iff by simp_all
  then show ?thesis unfolding j by simp
qed


subsection \<open>Where the quotes of a server come from\<close>

lemma seed_stocks_seeded: "q \<in> set (seed_stocks e k ts) \<Longrightarrow> seeded e q"
  by (induction ts arbitrary: k) (auto simp: seeded_def)

lemma set_update_subset: "set (AList.update k v al) \<subseteq> insert (k, v) (set al)"
  by (induction al) auto

lemma quotes_init_account:
  assumes "q \<in> set (quotes (init_account e acc s))"
  shows "q \<in> set (quotes s) \<or> seeded e q"
proof -
  let ?d = "\<lparr>stocks = seed_stocks e (calls s) (account_stocks acc)\<rparr>"
  from assms obtain accId d where
    mem: "(accId, d) \<in> set (AList.update (account_id acc) ?d (accountData (store s)))"
    and q: "q \<in> set (stocks d)"
    by (auto simp: quotes_def init_account_def)
  from mem set_update_subset
  have "(accId, d) = (account_id acc, ?d) \<or> (accId, d) \<in> set (accountData (store s))"
    by fastforce
  then show ?thesis
  proof
    assume "(accId, d) = (account_id acc, ?d)"
    with q show ?thesis by (auto dest: seed_stocks_seeded)
  next
    assume "(accId, d) \<in> set (accountData (store s))"
    with q show ?thesis by (auto simp: quotes_def)
  qed
qed

lemma quotes_init_accounts:
  "q \<in> set (quotes (init_accounts e accs s)) \<Longrightarrow> q \<in> set (quotes s) \<or> seeded e q"
proof (induction accs arbitrary: s)
  case Nil
  then show ?case by simp
next
  case (Cons acc accs)
  from Cons.IH [of "init_account e acc s"] Cons.prems
  show ?case by (auto dest: quotes_init_account)
qed

lemma quotes_createMockServer:
  assumes "q \<in> set (quotes (createMockServer e))"
  shows "seeded e q"
proof -
  from assms have "q \<in> set (quotes \<lparr>store = initial_store, calls = 0\<rparr>) \<or> seeded e q"
    unfolding createMockServer_def initAccountData_def by (rule quotes_init_accounts)
  then show ?thesis by (simp add: quotes_def initial_store_def)
qed




lemmas server_defs =
  createMockServer_def initAccountData_def init_account_def initial_store_def tick_def
  quotes_def

lemmas url_defs = example_url_def pathname_of_def path_char_def empty_authority_def

lemmas route_defs =
  apiFetch_def route_def companies_block_def accounts_block_def path_parts_def index_def

lemma sample_env_range: "\<forall>k. 0 \<le> random sample_env k \<and> random sample_env k < 1"
  by (simp add: sample_env_def)

subsection \<open>The price floor\<close>



subsection \<open>One tick\<close>






lemma tick_stocks_related:
  "(\<forall>q \<in> set ss. \<forall>i. R q (tick_quote (random e i) (now e i) q)) \<Longrightarrow>
     list_all2 R ss (tick_stocks e k ss)"
  by (induction ss arbitrary: k) simp_all

lemma tick_accounts_related:
  "(\<forall>x \<in> set al. \<forall>q \<in> set (stocks (snd x)). \<forall>i. R q (tick_quote (random e i) (now e i) q)) \<Longrightarrow>
     list_all2 (\<lambda>x y. fst y = fst x \<and> list_all2 R (stocks (snd x)) (stocks (snd y)))
       al (tick_accounts e k al)"
proof (induction e k al rule: tick_accounts.induct)
  case (1 e k)
  then show ?case by simp
next
  case (2 e k accId acc rest)
  then show ?case by (simp add: tick_stocks_related)
qed

lemma tick_related:
  assumes "\<forall>q \<in> set (quotes s). \<forall>i. R q (tick_quote (random e i) (now e i) q)"
  shows "quotes_related R s (tick e s)"
proof -
  from assms have "\<forall>x \<in> set (accountData (store s)). \<forall>q \<in> set (stocks (snd x)).
      \<forall>i. R q (tick_quote (random e i) (now e i) q)"
    by (fastforce simp: quotes_def)
  from tick_accounts_related [OF this] show ?thesis
    by (simp add: quotes_related_def tick_def)
qed





text \<open>
  C2. Every quote of a newly created server has change 0, and a tick of any server leaves
  in every quote the change \<open>toFixed2 (price after - price before)\<close>, the difference of
  the new price and the price the quote had before that tick, rounded to hundredths.
\<close>

theorem change_is_rounded_difference:
  "(\<forall>q \<in> set (quotes (createMockServer e)). change q = 0) \<and>
   quotes_related (\<lambda>q q'. change q' = toFixed2 (price q' - price q)) s (tick e s)"
proof
  show "\<forall>q \<in> set (quotes (createMockServer e)). change q = 0"
    by (auto dest: quotes_createMockServer simp: seeded_def)
  show "quotes_related (\<lambda>q q'. change q' = toFixed2 (price q' - price q)) s (tick e s)"
    by (rule tick_related) (simp add: tick_quote_def Let_def)
qed

theorem change_is_rounded_difference_witness:
  "list_all (\<lambda>q. change q = 0) (quotes (createMockServer sample_env)) \<and>
   quotes_related (\<lambda>q q'. change q' = toFixed2 (price q' - price q))
     (createMockServer sample_env) (tick sample_env (createMockServer sample_env)) \<and>
   map price (quotes (createMockServer sample_env)) =
     [100, 125, 150, 175, 100, 125, 150, 175, 100, 125] \<and>
   map price (quotes (tick sample_env (createMockServer sample_env))) =
     [100, 12563 / 100, 297 / 2, 17413 / 100, 100, 12563 / 100, 297 / 2, 17413 / 100, 100,
      12563 / 100] \<and>
   map change (quotes (tick sample_env (createMockServer sample_env))) =
     [0, 63 / 100, - 3 / 2, - 87 / 100, 0, 63 / 100, - 3 / 2, - 87 / 100, 0, 63 / 100]"
proof -
  have "map price (quotes (createMockServer sample_env)) =
     [100, 125, 150, 175, 100, 125, 150, 175, 100, 125]"
    by (simp add: server_defs sample_env_def randomPrice_def toFixed2_def)
  moreover have "map price (quotes (tick sample_env (createMockServer sample_env))) =
     [100, 12563 / 100, 297 / 2, 17413 / 100, 100, 12563 / 100, 297 / 2, 17413 / 100, 100,
      12563 / 100]"
    by (simp add: server_defs sample_env_def randomPrice_def toFixed2_def tick_quote_def
        delta_def Let_def)
  moreover have "map change (quotes (tick sample_env (createMockServer sample_env))) =
     [0, 63 / 100, - 3 / 2, - 87 / 100, 0, 63 / 100, - 3 / 2, - 87 / 100, 0, 63 / 100]"
    by (simp add: server_defs sample_env_def randomPrice_def toFixed2_def tick_quote_def
        delta_def Let_def)
  ultimately show ?thesis
    using change_is_rounded_difference [of sample_env "createMockServer sample_env"]
    unfolding list_all_iff by blast
qed

subsection \<open>Requests\<close>

text \<open>
  C9. Two requests for the same path, the second made on the server as the first left it
  (no tick in between), give the same result, so for an account the same price, change and
  updatedAt in every quote; and the server is as it was.
\<close>

theorem fetch_twice_same:
  assumes "fetch_json url path s = (r1, s1)" and "fetch_json url path s1 = (r2, s2)"
  shows "r2 = r1 \<and> s2 = s"
  using assms by (auto simp: fetch_json_def split: sum.splits)

theorem fetch_twice_same_witness:
  "fetch_json example_url ''/accounts/a2/data'' (createMockServer sample_env) =
     (Inr (200, JAccountData
        \<lparr>stocks =
           [\<lparr>ticker = ''META'', price = 175, change = 0, updatedAt = 1700000003000\<rparr>,
            \<lparr>ticker = ''NVDA'', price = 100, change = 0, updatedAt = 1700000004000\<rparr>]\<rparr>),
      createMockServer sample_env) \<and>
   fst (fetch_json example_url ''/accounts/a2/data''
         (snd (fetch_json example_url ''/accounts/a2/data'' (createMockServer sample_env)))) =
   fst (fetch_json example_url ''/accounts/a2/data'' (createMockServer sample_env))"
proof -
  let ?s = "createMockServer sample_env"
  let ?f = "fetch_json example_url ''/accounts/a2/data''"
  have api: "apiFetch example_url ''/accounts/a2/data'' =
      Inr \<lparr>status = 200, json = AccountData_fn ''a2''\<rparr>"
    by (simp add: url_defs route_defs)
  have first: "?f ?s =
     (Inr (200, JAccountData
        \<lparr>stocks =
           [\<lparr>ticker = ''META'', price = 175, change = 0, updatedAt = 1700000003000\<rparr>,
            \<lparr>ticker = ''NVDA'', price = 100, change = 0, updatedAt = 1700000004000\<rparr>]\<rparr>), ?s)"
    unfolding fetch_json_def api
    by (simp add: server_defs get_property_def sample_env_def randomPrice_def toFixed2_def)
  have "?f ?s = (fst (?f ?s), snd (?f ?s))" "?f (snd (?f ?s)) = (fst (?f (snd (?f ?s))), snd (?f (snd (?f ?s))))"
    by simp_all
  from fetch_twice_same [OF this] first show ?thesis by simp
qed

lemma route_served: "served parts \<Longrightarrow> status (route parts) = 200"
  by (induction parts rule: served.induct) (auto simp: route_def companies_block_def accounts_block_def index_def)

lemma route_not_served: "\<not> served parts \<Longrightarrow> route parts = \<lparr>status = 404, json = NotFound_fn\<rparr>"
  by (induction parts rule: served.induct) (auto simp: route_def companies_block_def accounts_block_def index_def)

lemma spec_pattern_served: "spec_pattern parts \<Longrightarrow> served parts"
  by (induction parts rule: spec_pattern.induct) auto

text \<open>
  C4, amended. For a path the URL constructor accepts: when the segments of its pathname
  are neither \<^verbatim>\<open>companies\<close> alone nor begin with \<^verbatim>\<open>companies\<close>, an id and \<^verbatim>\<open>accounts\<close>,
  or with \<^verbatim>\<open>accounts\<close>, an id and \<^verbatim>\<open>data\<close>, the response has status 404 and its body is
  \<^verbatim>\<open>{ error: "not found" }\<close>; every other path is answered with status 200.
\<close>

theorem unserved_path_not_found:
  assumes "url path = Some pathname"
  shows "(\<not> served (path_parts pathname) \<longrightarrow>
            apiFetch url path = Inr \<lparr>status = 404, json = NotFound_fn\<rparr> \<and>
            call_json st NotFound_fn = JError ''not found'') \<and>
         (served (path_parts pathname) \<longrightarrow>
            (\<exists>res. apiFetch url path = Inr res \<and> status res = 200))"
  using assms by (simp add: apiFetch_def route_not_served route_served)

theorem unserved_path_not_found_witness:
  "example_url ''/unknown/path'' = Some ''/unknown/path'' \<and>
   \<not> served (path_parts ''/unknown/path'') \<and>
   apiFetch example_url ''/unknown/path'' = Inr \<lparr>status = 404, json = NotFound_fn\<rparr> \<and>
   call_json initial_store NotFound_fn = JError ''not found''"
proof -
  have "example_url ''/unknown/path'' = Some ''/unknown/path''"
    by (simp add: url_defs)
  moreover have "\<not> served (path_parts ''/unknown/path'')"
    by (simp add: path_parts_def)
  ultimately show ?thesis
    using unserved_path_not_found [of example_url "''/unknown/path''" "''/unknown/path''" initial_store]
    by simp
qed

text \<open>
  C4 as stated, that every path outside the three patterns is answered with 404, fails on
  \<^verbatim>\<open>/companies/c1/accounts/extra\<close>: the router looks at the first and the third segment
  only, and answers as for \<^verbatim>\<open>/companies/c1/accounts\<close>.
\<close>

theorem extra_segments_counterexample:
  "\<not> spec_pattern (path_parts ''/companies/c1/accounts/extra'') \<and>
   apiFetch example_url ''/companies/c1/accounts/extra'' =
     Inr \<lparr>status = 200, json = Accounts_fn ''c1''\<rparr>"
  by (simp add: url_defs route_defs)

text \<open>
  C10, amended. A request throws exactly when the URL constructor rejects its path.
  Otherwise it returns a response whose status is 200 or 404: 200 when the segments of the
  pathname have a shape the router serves, so for every path of the three patterns,
  whatever the company or account id, and 404 else.
\<close>

theorem apiFetch_result:
  "(url path = None \<longrightarrow> apiFetch url path = Inl TypeError) \<and>
   (\<forall>pathname. url path = Some pathname \<longrightarrow>
      (\<exists>res. apiFetch url path = Inr res \<and>
         status res = (if served (path_parts pathname) then 200 else 404) \<and>
         (spec_pattern (path_parts pathname) \<longrightarrow> status res = 200)))"
  by (auto simp: apiFetch_def route_served route_not_served dest: spec_pattern_served)

theorem apiFetch_result_witness:
  "example_url ''/accounts/zz/data'' = Some ''/accounts/zz/data'' \<and>
   spec_pattern (path_parts ''/accounts/zz/data'') \<and>
   apiFetch example_url ''/accounts/zz/data'' =
     Inr \<lparr>status = 200, json = AccountData_fn ''zz''\<rparr> \<and>
   call_json (store (createMockServer sample_env)) (AccountData_fn ''zz'') =
     JAccountData \<lparr>stocks = []\<rparr>"
proof -
  have "example_url ''/accounts/zz/data'' = Some ''/accounts/zz/data''"
    by (simp add: url_defs)
  moreover have "spec_pattern (path_parts ''/accounts/zz/data'')"
    by (simp add: path_parts_def)
  moreover have "call_json (store (createMockServer sample_env)) (AccountData_fn ''zz'') =
     JAccountData \<lparr>stocks = []\<rparr>"
    by (simp add: server_defs get_property_def object_prototype_keys_def)
  moreover have "apiFetch example_url ''/accounts/zz/data'' =
     Inr \<lparr>status = 200, json = AccountData_fn ''zz''\<rparr>"
    by (simp add: url_defs route_defs)
  ultimately show ?thesis
    using apiFetch_result [of example_url "''/accounts/zz/data''"] by simp
qed

text \<open>
  C10 as stated, that no request throws, fails on the path \<^verbatim>\<open>//\<close>: the URL constructor rejects
  it, and nothing in \<^verbatim>\<open>apiFetch\<close> catches the \<^verbatim>\<open>TypeError\<close>.
\<close>

theorem empty_host_counterexample:
  "apiFetch example_url ''//'' = Inl TypeError"
  by (simp add: url_defs route_defs)

text \<open>
  C3. The id \<^verbatim>\<open>constructor\<close> names neither a company nor an account of the store, yet the
  lookups for it do not give an empty sequence: both requests are answered with status 200
  and \<^verbatim>\<open>json()\<close> returns the member \<^verbatim>\<open>constructor\<close> that the dictionary inherits from
  \<^verbatim>\<open>Object.prototype\<close>.
\<close>

theorem inherited_key_lookup:
  "map_of (accounts initial_store) ''constructor'' = None \<and>
   fetch_json example_url ''/companies/constructor/accounts'' (createMockServer sample_env) =
     (Inr (200, JInherited ''constructor''), createMockServer sample_env) \<and>
   map_of (accountData (store (createMockServer sample_env))) ''constructor'' = None \<and>
   fetch_json example_url ''/accounts/constructor/data'' (createMockServer sample_env) =
     (Inr (200, JInherited ''constructor''), createMockServer sample_env)"
proof -
  have "apiFetch example_url ''/companies/constructor/accounts'' =
      Inr \<lparr>status = 200, json = Accounts_fn ''constructor''\<rparr>"
    "apiFetch example_url ''/accounts/constructor/data'' =
      Inr \<lparr>status = 200, json = AccountData_fn ''constructor''\<rparr>"
    by (simp_all add: url_defs route_defs)
  moreover have "map_of (accounts initial_store) ''constructor'' = None"
    "accounts (store (createMockServer sample_env)) = accounts initial_store"
    "map_of (accountData (store (createMockServer sample_env))) ''constructor'' = None"
    by (simp_all add: server_defs)
  ultimately show ?thesis
    by (simp add: fetch_json_def get_property_def object_prototype_keys_def)
qed

text \<open>
  For an unknown id that is not the name of a member of \<^verbatim>\<open>Object.prototype\<close>, the
  lookups give the empty list and \<^verbatim>\<open>{ stocks: [] }\<close>.
\<close>

lemma unknown_id_empty:
  assumes "key \<notin> set object_prototype_keys"
  shows "map_of (accounts st) key = None \<Longrightarrow> call_json st (Accounts_fn key) = JAccounts []"
    and "map_of (accountData st) key = None \<Longrightarrow>
           call_json st (AccountData_fn key) = JAccountData \<lparr>stocks = []\<rparr>"
  using assms by (simp_all add: get_property_def)

subsection \<open>Seeding\<close>

text \<open>
  C5, amended. With every result of \<^verbatim>\<open>Math.random()\<close> in \<open>[0, 1)\<close>, every quote of a newly
  created server has a price that is \<open>100 + r * 100\<close> for one of the draws \<open>r\<close>, rounded
  to hundredths: a whole number of hundredths in the closed interval from 100 to 200.
\<close>

theorem seeded_price_range:
  assumes "\<forall>k. 0 \<le> random e k \<and> random e k < 1"
  shows "\<forall>q \<in> set (quotes (createMockServer e)).
           100 \<le> price q \<and> price q \<le> 200 \<and>
           (\<exists>j::int. price q = real_of_int j / 100) \<and>
           (\<exists>k. price q = toFixed2 (100 + random e k * 100))"
proof
  fix q assume "q \<in> set (quotes (createMockServer e))"
  then have "seeded e q" by (rule quotes_createMockServer)
  then obtain k where k: "price q = randomPrice (random e k) 100"
    by (auto simp: seeded_def)
  from assms have r: "0 \<le> random e k" "random e k < 1" by simp_all
  then have "\<bar>100 + random e k * 100\<bar> < 10 ^ 21" by simp
  from toFixed2_hundredths [OF this] have "\<exists>j::int. price q = real_of_int j / 100"
    by (simp add: k randomPrice_def)
  moreover have "\<exists>k. price q = toFixed2 (100 + random e k * 100)"
    using k by (auto simp: randomPrice_def)
  ultimately show "100 \<le> price q \<and> price q \<le> 200 \<and>
           (\<exists>j::int. price q = real_of_int j / 100) \<and>
           (\<exists>k. price q = toFixed2 (100 + random e k * 100))"
    using randomPrice_100_range [OF r] k by simp
qed

theorem seeded_price_range_witness:
  "(\<forall>k. 0 \<le> random sample_env k \<and> random sample_env k < 1) \<and>
   map price (quotes (createMockServer sample_env)) =
     [100, 125, 150, 175, 100, 125, 150, 175, 100, 125] \<and>
   list_all (\<lambda>q. 100 \<le> price q \<and> price q \<le> 200) (quotes (createMockServer sample_env))"
proof -
  have h: "\<forall>k. 0 \<le> random sample_env k \<and> random sample_env k < 1"
    by (rule sample_env_range)
  have "map price (quotes (createMockServer sample_env)) =
     [100, 125, 150, 175, 100, 125, 150, 175, 100, 125]"
    by (simp add: server_defs sample_env_def randomPrice_def toFixed2_def)
  with h seeded_price_range [OF h] show ?thesis
    unfolding list_all_iff by blast
qed

text \<open>
  C5 as stated, that every seeded price is below 200, fails for a draw of 0.99999: the price is
  199.999 rounded to hundredths, which is 200.
\<close>

theorem seeded_price_200_counterexample:
  "0 \<le> random high_env 0 \<and> random high_env 0 < 1 \<and>
   price (hd (quotes (createMockServer high_env))) = 200"
  by (simp add: server_defs high_env_def randomPrice_def toFixed2_def)

lemma toFixed2_nonpos:
  assumes "x \<le> 0"
  shows "toFixed2 x \<le> 0"
proof (cases "10 ^ 21 \<le> \<bar>x\<bar>")
  case True
  with assms show ?thesis by (simp add: toFixed2_def)
next
  case False
  have "0 \<le> \<lfloor>\<bar>x\<bar> * 100 + 1 / 2\<rfloor>" by simp
  then have "0 \<le> real_of_int \<lfloor>\<bar>x\<bar> * 100 + 1 / 2\<rfloor> / 100" by simp
  moreover have "sgn x \<le> 0" using assms by (simp add: sgn_real_def)
  ultimately have "sgn x * (real_of_int \<lfloor>\<bar>x\<bar> * 100 + 1 / 2\<rfloor> / 100) \<le> 0"
    by (rule mult_nonpos_nonneg [rotated]) 
  with False show ?thesis by (simp add: toFixed2_def)
qed

text \<open>
  C8, amended. \<^verbatim>\<open>randomPrice\<close> does not check its base: for a base of zero or less and a
  draw in \<open>[0, 1)\<close> it returns \<open>base + r * base\<close> rounded to hundredths, a number that is
  not positive. Seeding never passes such a base: every quote of a newly created server
  has its price from \<^verbatim>\<open>randomPrice(100)\<close>.
\<close>

theorem randomPrice_accepts_any_base:
  assumes "base \<le> 0" and "0 \<le> r" and "r < 1"
  shows "randomPrice r base = toFixed2 (base + r * base) \<and> randomPrice r base \<le> 0 \<and>
         (\<forall>q \<in> set (quotes (createMockServer e)). \<exists>k. price q = randomPrice (random e k) 100)"
proof (intro conjI)
  show "randomPrice r base = toFixed2 (base + r * base)" by (simp add: randomPrice_def)
  have "r * base \<le> 0" using assms by (simp add: mult_nonneg_nonpos)
  with assms(1) have "base + r * base \<le> 0" by simp
  then show "randomPrice r base \<le> 0" unfolding randomPrice_def by (rule toFixed2_nonpos)
  show "\<forall>q \<in> set (quotes (createMockServer e)). \<exists>k. price q = randomPrice (random e k) 100"
    by (fastforce dest: quotes_createMockServer simp: seeded_def)
qed

theorem randomPrice_accepts_any_base_witness:
  "(- 5 :: real) \<le> 0 \<and> (0 :: real) \<le> 1 / 2 \<and> (1 / 2 :: real) < 1 \<and>
   randomPrice (1 / 2) (- 5) \<le> 0 \<and> randomPrice (1 / 2) 0 = 0"
  using randomPrice_accepts_any_base [of "- 5" "1 / 2" sample_env]
  by (simp add: randomPrice_def toFixed2_def)

text \<open>
  C8 as stated, that a base of zero or less is rejected, fails for the base -5: with a draw of
  1/2, \<^verbatim>\<open>randomPrice\<close> returns the negative price -7.5.
\<close>

theorem negative_base_counterexample:
  "randomPrice (1 / 2) (- 5) = - 15 / 2"
  by (simp add: randomPrice_def toFixed2_def)

subsection \<open>Subscriptions\<close>

lemma ticker_tick_quote: "ticker (tick_quote r t s) = ticker s"
  by (simp add: tick_quote_def Let_def)

lemma tickers_tick_stocks: "map ticker (tick_stocks e k ss) = map ticker ss"
  by (induction ss arbitrary: k) (simp_all add: ticker_tick_quote)

lemma ticker_lists_tick_accounts: "ticker_lists (tick_accounts e k al) = ticker_lists al"
  by (induction e k al rule: tick_accounts.induct)
    (simp_all add: ticker_lists_def tickers_tick_stocks)

lemma tickers_seed_stocks: "map ticker (seed_stocks e k ts) = ts"
  by (induction ts arbitrary: k) simp_all

lemma ticker_lists_created:
  "ticker_lists (accountData (store (createMockServer e))) = subscriptions initial_store"
  by (simp add: server_defs ticker_lists_def subscriptions_def tickers_seed_stocks)

lemma ticker_lists_ticks:
  "ticker_lists (accountData (store (ticks e n))) = subscriptions initial_store"
  by (induction n) (simp_all add: ticker_lists_created tick_def ticker_lists_tick_accounts)

lemma map_of_ticker_lists:
  "map_of (ticker_lists al) k = map_option (\<lambda>d. map ticker (stocks d)) (map_of al k)"
  by (induction al) (simp_all add: ticker_lists_def)

lemma known_account_data:
  assumes "acc \<in> set (concat (map snd (accounts initial_store)))"
  shows "\<exists>d. get_property (accountData (store (ticks e n))) (account_id acc) = Own d \<and>
           map ticker (stocks d) = account_stocks acc"
proof -
  from assms have "map_of (subscriptions initial_store) (account_id acc) = Some (account_stocks acc)"
    by (auto simp: subscriptions_def initial_store_def)
  then have "map_of (ticker_lists (accountData (store (ticks e n)))) (account_id acc) =
      Some (account_stocks acc)"
    by (simp add: ticker_lists_ticks)
  then have "map_option (\<lambda>d. map ticker (stocks d))
      (map_of (accountData (store (ticks e n))) (account_id acc)) = Some (account_stocks acc)"
    by (simp add: map_of_ticker_lists)
  then show ?thesis by (auto simp: get_property_def)
qed

lemma known_account_route:
  assumes "acc \<in> set (concat (map snd (accounts initial_store)))"
  shows "route (path_parts (''/accounts/'' @ account_id acc @ ''/data'')) =
           \<lparr>status = 200, json = AccountData_fn (account_id acc)\<rparr>"
  using assms by (auto simp: initial_store_def route_defs)

text \<open>
  C7. For every account of the store, at creation and after any number of ticks, the
  request for \<^verbatim>\<open>/accounts/{id}/data\<close> is answered with status 200 and the quotes of the
  account, whose tickers are the account's list of stocks, one quote per entry and in the
  same order. A tick of any server keeps the account ids, the number of quotes of each
  account and the ticker of every quote, and it leaves the companies and the accounts of
  the store as they are.
\<close>

theorem quotes_follow_subscription:
  assumes "acc \<in> set (concat (map snd (accounts initial_store)))"
    and "url (''/accounts/'' @ account_id acc @ ''/data'') =
           Some (''/accounts/'' @ account_id acc @ ''/data'')"
  shows "(\<exists>d. fetch_json url (''/accounts/'' @ account_id acc @ ''/data'') (ticks e n) =
               (Inr (200, JAccountData d), ticks e n) \<and>
             map ticker (stocks d) = account_stocks acc) \<and>
         quotes_related (\<lambda>q q'. ticker q' = ticker q) s (tick e s) \<and>
         companies (store (tick e s)) = companies (store s) \<and>
         accounts (store (tick e s)) = accounts (store s)"
proof (intro conjI)
  from known_account_data [OF assms(1)] obtain d where
    d: "get_property (accountData (store (ticks e n))) (account_id acc) = Own d"
      "map ticker (stocks d) = account_stocks acc"
    by blast
  have "fetch_json url (''/accounts/'' @ account_id acc @ ''/data'') (ticks e n) =
      (Inr (200, JAccountData d), ticks e n)"
    using assms(2) d(1) known_account_route [OF assms(1)]
    by (simp add: fetch_json_def apiFetch_def)
  with d(2) show "\<exists>d. fetch_json url (''/accounts/'' @ account_id acc @ ''/data'') (ticks e n) =
               (Inr (200, JAccountData d), ticks e n) \<and>
             map ticker (stocks d) = account_stocks acc"
    by blast
  show "quotes_related (\<lambda>q q'. ticker q' = ticker q) s (tick e s)"
    by (rule tick_related) (simp add: ticker_tick_quote)
  show "companies (store (tick e s)) = companies (store s)"
    by (simp add: tick_def)
  show "accounts (store (tick e s)) = accounts (store s)"
    by (simp add: tick_def)
qed

theorem quotes_follow_subscription_witness:
  "\<lparr>account_id = ''a2'', account_name = ''Sumaiya - Account 2'',
     account_stocks = [''META'', ''NVDA'']\<rparr>
     \<in> set (concat (map snd (accounts initial_store))) \<and>
   example_url ''/accounts/a2/data'' = Some ''/accounts/a2/data'' \<and>
   fst (fetch_json example_url ''/accounts/a2/data'' (ticks sample_env 1)) =
     Inr (200, JAccountData
       \<lparr>stocks =
          [\<lparr>ticker = ''META'', price = 17413 / 100, change = - 87 / 100,
            updatedAt = 1700000013000\<rparr>,
           \<lparr>ticker = ''NVDA'', price = 100, change = 0, updatedAt = 1700000014000\<rparr>]\<rparr>)"
proof -
  let ?acc = "\<lparr>account_id = ''a2'', account_name = ''Sumaiya - Account 2'',
     account_stocks = [''META'', ''NVDA'']\<rparr>"
  have mem: "?acc \<in> set (concat (map snd (accounts initial_store)))"
    by (simp add: initial_store_def)
  have url: "example_url (''/accounts/'' @ account_id ?acc @ ''/data'') =
      Some (''/accounts/'' @ account_id ?acc @ ''/data'')"
    by (simp add: url_defs)
  have api: "apiFetch example_url ''/accounts/a2/data'' =
      Inr \<lparr>status = 200, json = AccountData_fn ''a2''\<rparr>"
    by (simp add: url_defs route_defs)
  have "fst (fetch_json example_url ''/accounts/a2/data'' (ticks sample_env 1)) =
     Inr (200, JAccountData
       \<lparr>stocks =
          [\<lparr>ticker = ''META'', price = 17413 / 100, change = - 87 / 100,
            updatedAt = 1700000013000\<rparr>,
           \<lparr>ticker = ''NVDA'', price = 100, change = 0, updatedAt = 1700000014000\<rparr>]\<rparr>)"
    unfolding fetch_json_def api
    by (simp add: server_defs get_property_def sample_env_def randomPrice_def toFixed2_def
        tick_quote_def delta_def Let_def)
  with mem url quotes_follow_subscription [of ?acc example_url sample_env 1, OF mem url]
  show ?thesis by simp
qed

end
